theory Spec2Isabelle
  imports Main
begin

section \<open>Package fileexplorer: opening the native file manager\<close>

text \<open>
  The package has one exported function, \<open>Open(path, selectFile)\<close>, and nine strategy
  functions of type \<open>explorerBinArgs\<close> that compute the executable and its arguments.
  \<open>Open\<close> talks to the operating system (\<open>os.Stat\<close>, \<open>runtime.GOOS\<close>, \<open>os.Getenv\<close>,
  \<open>cmd.Start\<close>, \<open>cmd.Wait\<close>); the model takes these as the fields of a record \<open>host\<close> and
  returns, next to the result, the list of calls that were made, in order.
\<close>

subsection \<open>Go values\<close>

text \<open>
  Go strings are byte strings: \<open>string\<close> here, one \<open>char\<close> per byte.
  An \<open>error\<close> is \<open>nil\<close> or one of the values below; a function that returns only an error
  is modelled with \<open>error + unit\<close>, a function that returns values and an error with
  \<open>error + values\<close>.
\<close>

datatype error =
    HostError string          \<comment> \<open>an error made by the operating system interface
                                  (\<open>*fs.PathError\<close>, \<open>*exec.Error\<close>, an I/O error of \<open>Wait\<close>)\<close>
  | ExitError int             \<comment> \<open>\<open>*exec.ExitError\<close>: the child ran and did not exit with status 0\<close>
  | errors_New string         \<comment> \<open>\<open>errors.New(msg)\<close>\<close>
  | fmt_Errorf string error   \<comment> \<open>\<open>fmt.Errorf(msg + ": %w", err)\<close>\<close>

text \<open>The type assertion \<open>err.(*exec.ExitError)\<close>: it looks at the dynamic type of
  \<open>err\<close> itself and does not unwrap.\<close>

fun is_ExitError :: "error \<Rightarrow> bool" where
  "is_ExitError (ExitError code) = True"
| "is_ExitError (HostError msg) = False"
| "is_ExitError (errors_New msg) = False"
| "is_ExitError (fmt_Errorf msg err) = False"

record FileInfo =
  IsDir :: bool

datatype event =
    Stat_call string                    \<comment> \<open>\<open>os.Stat(path)\<close>\<close>
  | Resolve_call string bool            \<comment> \<open>\<open>explorerBinArgs(path, selectFile)\<close> in \<open>Open\<close>\<close>
  | Getenv_call string                  \<comment> \<open>\<open>os.Getenv(name)\<close>\<close>
  | Start_call string "string list"     \<comment> \<open>\<open>exec.Command(bin, args...).Start()\<close>\<close>
  | Wait_call string "string list"      \<comment> \<open>\<open>cmd.Wait()\<close>\<close>

fun is_Start :: "event \<Rightarrow> bool" where
  "is_Start (Start_call bin args) = True"
| "is_Start (Stat_call p) = False"
| "is_Start (Resolve_call p s) = False"
| "is_Start (Getenv_call n) = False"
| "is_Start (Wait_call bin args) = False"

fun is_Resolve :: "event \<Rightarrow> bool" where
  "is_Resolve (Resolve_call p s) = True"
| "is_Resolve (Stat_call p) = False"
| "is_Resolve (Getenv_call n) = False"
| "is_Resolve (Start_call bin args) = False"
| "is_Resolve (Wait_call bin args) = False"

text \<open>
  What the package is given by its surroundings. \<open>Start\<close> and \<open>Wait\<close> return \<open>None\<close> for
  a \<open>nil\<close> error. The last two fields stand for Go's Unicode tables, which are not
  modelled: they give the result of \<open>strings.ToUpper\<close> and \<open>strings.TrimSpace\<close> on a
  string that has a byte outside ASCII.
\<close>

record host =
  GOOS :: string
  Stat :: "string \<Rightarrow> error + FileInfo"
  Getenv :: "string \<Rightarrow> string"
  Start :: "string \<Rightarrow> string list \<Rightarrow> error option"
  Wait :: "string \<Rightarrow> string list \<Rightarrow> error option"
  unicode_ToUpper :: "string \<Rightarrow> string"
  unicode_TrimSpace :: "string \<Rightarrow> string"

subsection \<open>The standard library functions the package calls\<close>

text \<open>\<open>fmt.Sprintf\<close> for the verb \<open>%s\<close> with string operands, the only verb the package
  formats with.\<close>

fun fmt_Sprintf :: "string \<Rightarrow> string list \<Rightarrow> string" where
  "fmt_Sprintf [] args = []"
| "fmt_Sprintf [c] args = [c]"
| "fmt_Sprintf (c # d # f) args =
     (if c = CHR ''%'' \<and> d = CHR ''s''
      then (case args of
              a # rest \<Rightarrow> a @ fmt_Sprintf f rest
            | [] \<Rightarrow> ''%!s(MISSING)'' @ fmt_Sprintf f [])
      else c # fmt_Sprintf (d # f) args)"

text \<open>\<open>c < utf8.RuneSelf\<close>\<close>

definition isASCII :: "char \<Rightarrow> bool" where
  "isASCII c = ((of_char c :: nat) < 128)"

text \<open>The table \<open>asciiSpace\<close> of package strings: tab, newline, vertical tab, form feed,
  carriage return, space.\<close>

definition asciiSpace :: "char \<Rightarrow> bool" where
  "asciiSpace c = (c = CHR 0x09 \<or> c = CHR 0x0A \<or> c = CHR 0x0B \<or> c = CHR 0x0C
                   \<or> c = CHR 0x0D \<or> c = CHR 0x20)"

text \<open>\<open>strings.TrimSpace\<close>: on an ASCII string both ends are cut at the first byte that
  is not in \<open>asciiSpace\<close>.\<close>

definition strings_TrimSpace :: "host \<Rightarrow> string \<Rightarrow> string" where
  "strings_TrimSpace h s =
     (if list_all isASCII s
      then rev (dropWhile asciiSpace (rev (dropWhile asciiSpace s)))
      else unicode_TrimSpace h s)"

text \<open>The ASCII path of \<open>strings.ToUpper\<close>: \<open>c -= 'a' - 'A'\<close> for \<open>'a' <= c <= 'z'\<close>.\<close>

definition upperASCII :: "char \<Rightarrow> char" where
  "upperASCII c =
     (if 97 \<le> (of_char c :: nat) \<and> (of_char c :: nat) \<le> 122
      then char_of ((of_char c :: nat) - 32) else c)"

definition strings_ToUpper :: "host \<Rightarrow> string \<Rightarrow> string" where
  "strings_ToUpper h s =
     (if list_all isASCII s then map upperASCII s else unicode_ToUpper h s)"

text \<open>
  \<open>filepath.Dir\<close> and \<open>filepath.Clean\<close> as on Linux: the separator is \<open>/\<close> and there is no
  volume name. \<open>Clean\<close> reads the path element by element and keeps the elements written
  so far; \<open>clean_step\<close> is one round of its loop, with the written elements most recent
  first.
\<close>

fun path_elements :: "string \<Rightarrow> string list" where
  "path_elements [] = [[]]"
| "path_elements (c # cs) =
     (if c = CHR ''/'' then [] # path_elements cs
      else (case path_elements cs of
              e # es \<Rightarrow> (c # e) # es
            | [] \<Rightarrow> [[c]]))"

fun join_elements :: "string list \<Rightarrow> string" where
  "join_elements [] = []"
| "join_elements [e] = e"
| "join_elements (e # e' # es) = e @ ''/'' @ join_elements (e' # es)"

definition clean_step :: "bool \<Rightarrow> string list \<Rightarrow> string \<Rightarrow> string list" where
  "clean_step rooted out e =
     (if e = [] \<or> e = ''.'' then out
      else if e = ''..'' then
        (if out \<noteq> [] \<and> hd out \<noteq> ''..'' then tl out
         else if \<not> rooted then ''..'' # out
         else out)
      else e # out)"

definition filepath_Clean :: "string \<Rightarrow> string" where
  "filepath_Clean path =
     (if path = [] then ''.''
      else
        (let rooted = (hd path = CHR ''/'');
             out = rev (foldl (clean_step rooted) [] (path_elements path));
             buf = (if rooted then ''/'' else []) @ join_elements out
         in if buf = [] then ''.'' else buf))"

text \<open>\<open>path[:i+1]\<close> for the index \<open>i\<close> of the last separator (\<open>-1\<close> when there is none).\<close>

definition dir_prefix :: "string \<Rightarrow> string" where
  "dir_prefix path = rev (dropWhile (\<lambda>c. c \<noteq> CHR ''/'') (rev path))"

definition filepath_Dir :: "string \<Rightarrow> string" where
  "filepath_Dir path = filepath_Clean (dir_prefix path)"

subsection \<open>The strategies\<close>

text \<open>\<open>type explorerBinArgs = func(path string, selectFile bool) (string, []string, error)\<close>\<close>

type_synonym launch_spec = "string \<times> string list"

type_synonym explorerBinArgs = "string \<Rightarrow> bool \<Rightarrow> (error + launch_spec) \<times> event list"

definition windowsExplorerBinArgs :: explorerBinArgs where
  "windowsExplorerBinArgs path selectFile =
     (let args = [];
          args = (if selectFile then args @ [fmt_Sprintf ''/select,\"%s\"'' [path]]
                  else args @ [path])
      in (Inr (''explorer'', args), []))"

definition darwinExplorerBinArgs :: explorerBinArgs where
  "darwinExplorerBinArgs path selectFile =
     (let args = [];
          args = (if selectFile then args @ [''-R''] else args);
          args = args @ [path]
      in (Inr (''open'', args), []))"

definition linuxGnomeExplorerBinArgs :: explorerBinArgs where
  "linuxGnomeExplorerBinArgs path selectFile =
     (let path = (if \<not> selectFile then filepath_Dir path else path)
      in (Inr (''nautilus'', [path]), []))"

definition linuxKdeExplorerBinArgs :: explorerBinArgs where
  "linuxKdeExplorerBinArgs path selectFile =
     (let path = (if \<not> selectFile then filepath_Dir path else path)
      in (Inr (''dolphin'', [path]), []))"

definition linuxXfceExplorerBinArgs :: explorerBinArgs where
  "linuxXfceExplorerBinArgs path selectFile =
     (let path = (if \<not> selectFile then filepath_Dir path else path)
      in (Inr (''thunar'', [path]), []))"

definition linuxMateExplorerBinArgs :: explorerBinArgs where
  "linuxMateExplorerBinArgs path selectFile =
     (let path = (if \<not> selectFile then filepath_Dir path else path)
      in (Inr (''caja'', [path]), []))"

definition linuxLxqtExplorerBinArgs :: explorerBinArgs where
  "linuxLxqtExplorerBinArgs path selectFile =
     (let path = (if \<not> selectFile then filepath_Dir path else path)
      in (Inr (''pcmanfm-qt'', [path]), []))"

definition linuxCinnamonExplorerBinArgs :: explorerBinArgs where
  "linuxCinnamonExplorerBinArgs path selectFile =
     (let path = (if \<not> selectFile then filepath_Dir path else path)
      in (Inr (''nemo'', [path]), []))"

definition linuxFallbackExplorerBinArgs :: explorerBinArgs where
  "linuxFallbackExplorerBinArgs path selectFile =
     (let path = filepath_Dir path
      in (Inr (''xdg-open'', [path]), []))"

definition linuxExplorerBinArgs :: "host \<Rightarrow> explorerBinArgs" where
  "linuxExplorerBinArgs h path selectFile =
     (let desktopEnvironment =
            strings_ToUpper h (strings_TrimSpace h (Getenv h ''XDG_CURRENT_DESKTOP''));
          explorerBinArgs =
            (if desktopEnvironment = ''CINNAMON'' \<or> desktopEnvironment = ''X-CINNAMON''
               then linuxCinnamonExplorerBinArgs
             else if desktopEnvironment = ''GNOME'' \<or> desktopEnvironment = ''GNOME-FLASHBACK''
                     \<or> desktopEnvironment = ''GNOME-FLASHBACK:GNOME''
               then linuxGnomeExplorerBinArgs
             else if desktopEnvironment = ''KDE'' then linuxKdeExplorerBinArgs
             else if desktopEnvironment = ''LXQT'' then linuxLxqtExplorerBinArgs
             else if desktopEnvironment = ''MATE'' then linuxMateExplorerBinArgs
             else if desktopEnvironment = ''XFCE'' then linuxXfceExplorerBinArgs
             else linuxFallbackExplorerBinArgs)
      in (case explorerBinArgs path selectFile of
            (result, calls) \<Rightarrow> (result, Getenv_call ''XDG_CURRENT_DESKTOP'' # calls)))"

subsection \<open>Open\<close>

definition Open :: "host \<Rightarrow> string \<Rightarrow> bool \<Rightarrow> (error + unit) \<times> event list" where
  "Open h path selectFile =
     (case Stat h path of
        Inl err \<Rightarrow>
          (Inl (fmt_Errorf ''failed to access the specified path stat'' err), [Stat_call path])
      | Inr pathInfo \<Rightarrow>
          (let selectFile = (selectFile \<and> \<not> IsDir pathInfo);
               strategy =
                 (if GOOS h = ''windows'' then Some (windowsExplorerBinArgs, True)
                  else if GOOS h = ''darwin'' then Some (darwinExplorerBinArgs, False)
                  else if GOOS h = ''linux'' then Some (linuxExplorerBinArgs h, False)
                  else None)
           in case strategy of
                None \<Rightarrow> (Inl (errors_New ''unsupported platform''), [Stat_call path])
              | Some (explorerBinArgs, ignoreExitCode) \<Rightarrow>
                  (case explorerBinArgs path selectFile of
                     (Inl err, calls) \<Rightarrow>
                       (Inl (fmt_Errorf ''failed to determine the file explorer binary'' err),
                        Stat_call path # Resolve_call path selectFile # calls)
                   | (Inr (explorerBin, explorerArgs), calls) \<Rightarrow>
                       (let started = Stat_call path # Resolve_call path selectFile # calls
                                        @ [Start_call explorerBin explorerArgs]
                        in case Start h explorerBin explorerArgs of
                             Some err \<Rightarrow>
                               (Inl (fmt_Errorf ''failed to start the file explorer process'' err),
                                started)
                           | None \<Rightarrow>
                               (let waited = started @ [Wait_call explorerBin explorerArgs]
                                in case Wait h explorerBin explorerArgs of
                                     Some err \<Rightarrow>
                                       (if is_ExitError err \<and> ignoreExitCode
                                        then (Inr (), waited)
                                        else (Inl (fmt_Errorf ''file explorer process failed'' err),
                                              waited))
                                   | None \<Rightarrow> (Inr (), waited))))))"

subsection \<open>A concrete host\<close>

text \<open>
  A machine with the file \<open>/home/user/doc.txt\<close>, the directories \<open>/\<close>, \<open>/home\<close> and
  \<open>/home/user\<close> (also written \<open>/home/user/\<close>), and nothing else; its operating system,
  the value of \<open>XDG_CURRENT_DESKTOP\<close> and the outcome of starting and of waiting for a
  child process are parameters.
\<close>

definition sample_host :: "string \<Rightarrow> string \<Rightarrow> error option \<Rightarrow> error option \<Rightarrow> host" where
  "sample_host goos desktop start_result wait_result =
     \<lparr> GOOS = goos,
       Stat = (\<lambda>p. if p = ''/home/user/doc.txt'' then Inr \<lparr> IsDir = False \<rparr>
                   else if p = ''/'' \<or> p = ''/home'' \<or> p = ''/home/user''
                           \<or> p = ''/home/user/''
                     then Inr \<lparr> IsDir = True \<rparr>
                   else Inl (HostError ''no such file or directory'')),
       Getenv = (\<lambda>name. if name = ''XDG_CURRENT_DESKTOP'' then desktop else []),
       Start = (\<lambda>bin args. start_result),
       Wait = (\<lambda>bin args. wait_result),
       unicode_ToUpper = (\<lambda>s. s),
       unicode_TrimSpace = (\<lambda>s. s) \<rparr>"

subsection \<open>The dispatch table of the specification\<close>

text \<open>
  The identifiers that the table of the Linux strategy names, the executable the table
  gives for a normalised identifier, and the value of the local variable
  \<open>desktopEnvironment\<close> of \<open>linuxExplorerBinArgs\<close> on a host.
\<close>

definition named_desktops :: "string list" where
  "named_desktops = [''CINNAMON'', ''X-CINNAMON'', ''GNOME'', ''GNOME-FLASHBACK'',
                     ''GNOME-FLASHBACK:GNOME'', ''KDE'', ''LXQT'', ''MATE'', ''XFCE'']"

definition spec_linux_executable :: "string \<Rightarrow> string" where
  "spec_linux_executable identifier =
     (if identifier = ''CINNAMON'' \<or> identifier = ''X-CINNAMON'' then ''nemo''
      else if identifier = ''GNOME'' \<or> identifier = ''GNOME-FLASHBACK''
              \<or> identifier = ''GNOME-FLASHBACK:GNOME'' then ''nautilus''
      else if identifier = ''KDE'' then ''dolphin''
      else if identifier = ''LXQT'' then ''pcmanfm-qt''
      else if identifier = ''MATE'' then ''caja''
      else if identifier = ''XFCE'' then ''thunar''
      else ''xdg-open'')"

definition desktopEnvironment :: "host \<Rightarrow> string" where
  "desktopEnvironment h =
     strings_ToUpper h (strings_TrimSpace h (Getenv h ''XDG_CURRENT_DESKTOP''))"

section \<open>Properties\<close>

subsection \<open>Auxiliary facts\<close>

text \<open>The format of the Windows selection argument, the Linux dispatcher in closed form,
  and two evaluations of the library functions.\<close>

lemmas linux_strategy_defs =
  linuxCinnamonExplorerBinArgs_def linuxGnomeExplorerBinArgs_def linuxKdeExplorerBinArgs_def
  linuxLxqtExplorerBinArgs_def linuxMateExplorerBinArgs_def linuxXfceExplorerBinArgs_def
  linuxFallbackExplorerBinArgs_def

lemma fmt_Sprintf_select:
  "fmt_Sprintf ''/select,\"%s\"'' [path] = ''/select,\"'' @ path @ ''\"''"
proof -
  have "fmt_Sprintf ''\"'' [] = ''\"''" by simp
  then show ?thesis by simp
qed

lemma linuxExplorerBinArgs_eq:
  "linuxExplorerBinArgs h path selectFile =
     (Inr (spec_linux_executable (desktopEnvironment h),
           [if selectFile \<and> desktopEnvironment h \<in> set named_desktops
            then path else filepath_Dir path]),
      [Getenv_call ''XDG_CURRENT_DESKTOP''])"
  by (simp add: linuxExplorerBinArgs_def desktopEnvironment_def spec_linux_executable_def
      named_desktops_def linux_strategy_defs Let_def)

lemma trim_upper_gnome:
  "strings_ToUpper h (strings_TrimSpace h ''  gnome  '') = ''GNOME''"
proof -
  have a: "list_all isASCII ''  gnome  ''" by code_simp
  have t: "rev (dropWhile asciiSpace (rev (dropWhile asciiSpace ''  gnome  ''))) = ''gnome''"
    by code_simp
  have b: "list_all isASCII ''gnome''" by code_simp
  have u: "map upperASCII ''gnome'' = ''GNOME''" by code_simp
  show ?thesis by (simp only: strings_ToUpper_def strings_TrimSpace_def a t b u if_True)
qed

lemma Dir_doc: "filepath_Dir ''/home/user/doc.txt'' = ''/home/user''"
  by code_simp

lemma dir_prefix_trailing: "dir_prefix (p @ ''/'') = p @ ''/''"
  by (simp add: dir_prefix_def)

text \<open>\<open>Open\<close> from the point where the path is classified, the platform has a strategy
  and the strategy has returned its launch spec; then the calls that \<open>Open\<close> makes.\<close>

lemma Open_started:
  assumes "Stat h path = Inr pathInfo"
    and "strategy = (if GOOS h = ''windows'' then windowsExplorerBinArgs
                     else if GOOS h = ''darwin'' then darwinExplorerBinArgs
                     else linuxExplorerBinArgs h)"
    and "GOOS h = ''windows'' \<or> GOOS h = ''darwin'' \<or> GOOS h = ''linux''"
    and "strategy path (selectFile \<and> \<not> IsDir pathInfo) = (Inr (bin, args), calls)"
  shows "Open h path selectFile =
    (case Start h bin args of
       Some err \<Rightarrow>
         (Inl (fmt_Errorf ''failed to start the file explorer process'' err),
          Stat_call path # Resolve_call path (selectFile \<and> \<not> IsDir pathInfo) # calls
            @ [Start_call bin args])
     | None \<Rightarrow>
         (case Wait h bin args of
            Some err \<Rightarrow>
              if is_ExitError err \<and> GOOS h = ''windows'' then Inr ()
              else Inl (fmt_Errorf ''file explorer process failed'' err)
          | None \<Rightarrow> Inr (),
          Stat_call path # Resolve_call path (selectFile \<and> \<not> IsDir pathInfo) # calls
            @ [Start_call bin args, Wait_call bin args]))"
  using assms by (auto simp add: Open_def Let_def split: option.splits)

lemma strategy_calls:
  "snd (windowsExplorerBinArgs path selectFile) = []"
  "snd (darwinExplorerBinArgs path selectFile) = []"
  "snd (linuxExplorerBinArgs h path selectFile) = [Getenv_call ''XDG_CURRENT_DESKTOP'']"
  "\<not> isl (fst (windowsExplorerBinArgs path selectFile))"
  "\<not> isl (fst (darwinExplorerBinArgs path selectFile))"
  "\<not> isl (fst (linuxExplorerBinArgs h path selectFile))"
  by (simp_all add: windowsExplorerBinArgs_def darwinExplorerBinArgs_def linuxExplorerBinArgs_eq
      Let_def)

lemma Open_calls:
  assumes "Stat h path = Inr pathInfo"
    and "strategy = (if GOOS h = ''windows'' then windowsExplorerBinArgs
                     else if GOOS h = ''darwin'' then darwinExplorerBinArgs
                     else linuxExplorerBinArgs h)"
    and "GOOS h = ''windows'' \<or> GOOS h = ''darwin'' \<or> GOOS h = ''linux''"
    and "strategy path (selectFile \<and> \<not> IsDir pathInfo) = (Inr (bin, args), calls)"
  shows "snd (Open h path selectFile) =
           Stat_call path # Resolve_call path (selectFile \<and> \<not> IsDir pathInfo) # calls
             @ Start_call bin args # (if Start h bin args = None then [Wait_call bin args] else [])"
  by (simp add: Open_started [OF assms] split: option.splits)

lemma Open_resolved:
  assumes "Stat h path = Inr pathInfo"
    and "GOOS h = ''windows'' \<or> GOOS h = ''darwin'' \<or> GOOS h = ''linux''"
  shows "filter is_Resolve (snd (Open h path selectFile))
           = [Resolve_call path (selectFile \<and> \<not> IsDir pathInfo)]"
proof -
  define strategy where "strategy = (if GOOS h = ''windows'' then windowsExplorerBinArgs
                     else if GOOS h = ''darwin'' then darwinExplorerBinArgs
                     else linuxExplorerBinArgs h)"
  have s: "\<not> isl (fst (strategy path (selectFile \<and> \<not> IsDir pathInfo)))"
    and c: "filter is_Resolve (snd (strategy path (selectFile \<and> \<not> IsDir pathInfo))) = []"
    by (simp_all add: strategy_def strategy_calls)
  obtain result calls where
    p: "strategy path (selectFile \<and> \<not> IsDir pathInfo) = (result, calls)"
    by (cases "strategy path (selectFile \<and> \<not> IsDir pathInfo)")
  with s obtain spec where "result = Inr spec" by (cases result) simp_all
  moreover obtain bin args where "spec = (bin, args)" by (cases spec)
  ultimately have
    r: "strategy path (selectFile \<and> \<not> IsDir pathInfo) = (Inr (bin, args), calls)"
    using p by simp
  with c have "filter is_Resolve calls = []" by simp
  then show ?thesis
    by (simp add: Open_calls [OF assms(1) strategy_def assms(2) r])
qed

subsection \<open>Result mapping\<close>

text \<open>
  Claim C1. On \<open>windows\<close>, when the child process starts and ends with an exit error,
  \<open>Open\<close> returns success; when the start fails, \<open>Open\<close> returns the wrapped start
  error. On \<open>darwin\<close> and on \<open>linux\<close> an exit error of the child makes \<open>Open\<close> return
  the wrapped process-execution error.
\<close>

theorem Open_exit_code_policy:
  "(GOOS h = ''windows'' \<and> Stat h path = Inr pathInfo
      \<and> fst (windowsExplorerBinArgs path (selectFile \<and> \<not> IsDir pathInfo)) = Inr (bin, args)
      \<and> Start h bin args = None \<and> Wait h bin args = Some (ExitError code)
    \<longrightarrow> fst (Open h path selectFile) = Inr ())
   \<and> (GOOS h = ''windows'' \<and> Stat h path = Inr pathInfo
      \<and> fst (windowsExplorerBinArgs path (selectFile \<and> \<not> IsDir pathInfo)) = Inr (bin, args)
      \<and> Start h bin args = Some err
    \<longrightarrow> fst (Open h path selectFile)
          = Inl (fmt_Errorf ''failed to start the file explorer process'' err))
   \<and> (GOOS h = ''darwin'' \<and> Stat h path = Inr pathInfo
      \<and> fst (darwinExplorerBinArgs path (selectFile \<and> \<not> IsDir pathInfo)) = Inr (bin, args)
      \<and> Start h bin args = None \<and> Wait h bin args = Some (ExitError code)
    \<longrightarrow> fst (Open h path selectFile)
          = Inl (fmt_Errorf ''file explorer process failed'' (ExitError code)))
   \<and> (GOOS h = ''linux'' \<and> Stat h path = Inr pathInfo
      \<and> fst (linuxExplorerBinArgs h path (selectFile \<and> \<not> IsDir pathInfo)) = Inr (bin, args)
      \<and> Start h bin args = None \<and> Wait h bin args = Some (ExitError code)
    \<longrightarrow> fst (Open h path selectFile)
          = Inl (fmt_Errorf ''file explorer process failed'' (ExitError code)))"
proof (intro conjI impI)
  assume a: "GOOS h = ''windows'' \<and> Stat h path = Inr pathInfo
      \<and> fst (windowsExplorerBinArgs path (selectFile \<and> \<not> IsDir pathInfo)) = Inr (bin, args)
      \<and> Start h bin args = None \<and> Wait h bin args = Some (ExitError code)"
  then obtain calls where
    "windowsExplorerBinArgs path (selectFile \<and> \<not> IsDir pathInfo) = (Inr (bin, args), calls)"
    by (cases "windowsExplorerBinArgs path (selectFile \<and> \<not> IsDir pathInfo)") simp
  with a show "fst (Open h path selectFile) = Inr ()"
    by (simp add: Open_started [where strategy = windowsExplorerBinArgs])
next
  assume a: "GOOS h = ''windows'' \<and> Stat h path = Inr pathInfo
      \<and> fst (windowsExplorerBinArgs path (selectFile \<and> \<not> IsDir pathInfo)) = Inr (bin, args)
      \<and> Start h bin args = Some err"
  then obtain calls where
    "windowsExplorerBinArgs path (selectFile \<and> \<not> IsDir pathInfo) = (Inr (bin, args), calls)"
    by (cases "windowsExplorerBinArgs path (selectFile \<and> \<not> IsDir pathInfo)") simp
  with a show "fst (Open h path selectFile)
          = Inl (fmt_Errorf ''failed to start the file explorer process'' err)"
    by (simp add: Open_started [where strategy = windowsExplorerBinArgs])
next
  assume a: "GOOS h = ''darwin'' \<and> Stat h path = Inr pathInfo
      \<and> fst (darwinExplorerBinArgs path (selectFile \<and> \<not> IsDir pathInfo)) = Inr (bin, args)
      \<and> Start h bin args = None \<and> Wait h bin args = Some (ExitError code)"
  then obtain calls where
    "darwinExplorerBinArgs path (selectFile \<and> \<not> IsDir pathInfo) = (Inr (bin, args), calls)"
    by (cases "darwinExplorerBinArgs path (selectFile \<and> \<not> IsDir pathInfo)") simp
  with a show "fst (Open h path selectFile)
          = Inl (fmt_Errorf ''file explorer process failed'' (ExitError code))"
    by (simp add: Open_started [where strategy = darwinExplorerBinArgs])
next
  assume a: "GOOS h = ''linux'' \<and> Stat h path = Inr pathInfo
      \<and> fst (linuxExplorerBinArgs h path (selectFile \<and> \<not> IsDir pathInfo)) = Inr (bin, args)
      \<and> Start h bin args = None \<and> Wait h bin args = Some (ExitError code)"
  then obtain calls where
    "linuxExplorerBinArgs h path (selectFile \<and> \<not> IsDir pathInfo) = (Inr (bin, args), calls)"
    by (cases "linuxExplorerBinArgs h path (selectFile \<and> \<not> IsDir pathInfo)") simp
  with a show "fst (Open h path selectFile)
          = Inl (fmt_Errorf ''file explorer process failed'' (ExitError code))"
    by (simp add: Open_started [where strategy = "linuxExplorerBinArgs h"])
qed

theorem Open_exit_code_policy_witness:
  "fst (Open (sample_host ''windows'' [] None (Some (ExitError 1))) ''/home/user/doc.txt'' True)
     = Inr ()
   \<and> fst (Open (sample_host ''windows'' [] (Some (HostError ''executable file not found''))
                 None) ''/home/user/doc.txt'' True)
     = Inl (fmt_Errorf ''failed to start the file explorer process''
             (HostError ''executable file not found''))
   \<and> fst (Open (sample_host ''darwin'' [] None (Some (ExitError 1))) ''/home/user/doc.txt'' True)
     = Inl (fmt_Errorf ''file explorer process failed'' (ExitError 1))
   \<and> fst (Open (sample_host ''linux'' ''KDE'' None (Some (ExitError 1)))
            ''/home/user/doc.txt'' True)
     = Inl (fmt_Errorf ''file explorer process failed'' (ExitError 1))"
  using
    Open_exit_code_policy [where h = "sample_host ''windows'' [] None (Some (ExitError 1))"
      and path = "''/home/user/doc.txt''" and pathInfo = "\<lparr> IsDir = False \<rparr>"
      and selectFile = True and bin = "''explorer''"
      and args = "[''/select,\"/home/user/doc.txt\"'']" and code = 1]
    Open_exit_code_policy [where h = "sample_host ''windows'' []
        (Some (HostError ''executable file not found'')) None"
      and path = "''/home/user/doc.txt''" and pathInfo = "\<lparr> IsDir = False \<rparr>"
      and selectFile = True and bin = "''explorer''"
      and args = "[''/select,\"/home/user/doc.txt\"'']"
      and err = "HostError ''executable file not found''"]
    Open_exit_code_policy [where h = "sample_host ''darwin'' [] None (Some (ExitError 1))"
      and path = "''/home/user/doc.txt''" and pathInfo = "\<lparr> IsDir = False \<rparr>"
      and selectFile = True and bin = "''open''"
      and args = "[''-R'', ''/home/user/doc.txt'']" and code = 1]
    Open_exit_code_policy [where h = "sample_host ''linux'' ''KDE'' None (Some (ExitError 1))"
      and path = "''/home/user/doc.txt''" and pathInfo = "\<lparr> IsDir = False \<rparr>"
      and selectFile = True and bin = "''dolphin''"
      and args = "[''/home/user/doc.txt'']" and code = 1]
  by code_simp

subsection \<open>Path classification\<close>

text \<open>
  Claim C4. When \<open>os.Stat\<close> fails on the path, \<open>Open\<close> returns the wrapped path-access
  error, and the only call it has made is that \<open>os.Stat\<close>: no strategy was asked, no
  environment variable read, no process started.
\<close>

theorem Open_stat_failure:
  "Stat h path = Inl err \<Longrightarrow>
   Open h path selectFile
     = (Inl (fmt_Errorf ''failed to access the specified path stat'' err), [Stat_call path])"
  by (simp add: Open_def)

theorem Open_stat_failure_witness:
  "Open (sample_host ''linux'' ''GNOME'' None None) ''/home/user/missing.txt'' True
     = (Inl (fmt_Errorf ''failed to access the specified path stat''
               (HostError ''no such file or directory'')),
        [Stat_call ''/home/user/missing.txt''])"
  using Open_stat_failure [where h = "sample_host ''linux'' ''GNOME'' None None"
      and path = "''/home/user/missing.txt''"
      and err = "HostError ''no such file or directory''" and selectFile = True]
  by (simp add: sample_host_def)

text \<open>
  Claim C5. When the path is an existing directory and selection is requested, the
  strategy is called with \<open>selectFile = false\<close>; \<open>Open\<close> then behaves as it does without
  the selection request.
\<close>

theorem Open_directory_downgrades_selection:
  assumes "Stat h path = Inr pathInfo" and "IsDir pathInfo"
  shows "Open h path True = Open h path False
         \<and> filter is_Resolve (snd (Open h path True))
           = (if GOOS h = ''windows'' \<or> GOOS h = ''darwin'' \<or> GOOS h = ''linux''
              then [Resolve_call path False] else [])"
proof (cases "GOOS h = ''windows'' \<or> GOOS h = ''darwin'' \<or> GOOS h = ''linux''")
  case True
  from Open_resolved [OF assms(1) True, of True] assms(2)
  have "filter is_Resolve (snd (Open h path True)) = [Resolve_call path False]" by simp
  moreover from assms have "Open h path True = Open h path False" by (simp add: Open_def)
  ultimately show ?thesis using True by simp
next
  case False
  with assms show ?thesis by (simp add: Open_def)
qed

theorem Open_directory_downgrades_selection_witness:
  "Open (sample_host ''windows'' [] None None) ''/home/user'' True
     = Open (sample_host ''windows'' [] None None) ''/home/user'' False
   \<and> filter is_Resolve (snd (Open (sample_host ''windows'' [] None None) ''/home/user'' True))
     = [Resolve_call ''/home/user'' False]
   \<and> filter is_Start (snd (Open (sample_host ''windows'' [] None None) ''/home/user'' True))
     = [Start_call ''explorer'' [''/home/user'']]"
  using Open_directory_downgrades_selection [where h = "sample_host ''windows'' [] None None"
      and path = "''/home/user''" and pathInfo = "\<lparr> IsDir = True \<rparr>"]
  by code_simp

subsection \<open>The Windows and macOS strategies\<close>

text \<open>
  Claim C6. The Windows strategy resolves to the executable \<open>explorer\<close>; with selection
  its argument list is the one string \<open>/select,"<path>"\<close>, without selection it is the
  bare path. On \<open>windows\<close> this is the command that \<open>Open\<close> hands to \<open>cmd.Start\<close>.
\<close>

theorem windows_launch_spec:
  "windowsExplorerBinArgs path True = (Inr (''explorer'', [''/select,\"'' @ path @ ''\"'']), [])
   \<and> windowsExplorerBinArgs path False = (Inr (''explorer'', [path]), [])
   \<and> (GOOS h = ''windows'' \<and> Stat h path = Inr pathInfo
        \<longrightarrow> filter is_Start (snd (Open h path selectFile))
            = [Start_call ''explorer''
                 [if selectFile \<and> \<not> IsDir pathInfo then ''/select,\"'' @ path @ ''\"''
                  else path]])"
proof (intro conjI impI)
  show t: "windowsExplorerBinArgs path True
             = (Inr (''explorer'', [''/select,\"'' @ path @ ''\"'']), [])"
    by (simp add: windowsExplorerBinArgs_def fmt_Sprintf_select)
  show f: "windowsExplorerBinArgs path False = (Inr (''explorer'', [path]), [])"
    by (simp add: windowsExplorerBinArgs_def)
  assume a: "GOOS h = ''windows'' \<and> Stat h path = Inr pathInfo"
  have "windowsExplorerBinArgs path (selectFile \<and> \<not> IsDir pathInfo)
          = (Inr (''explorer'',
                  [if selectFile \<and> \<not> IsDir pathInfo then ''/select,\"'' @ path @ ''\"''
                   else path]), [])"
    using t f by (cases selectFile; cases "IsDir pathInfo") simp_all
  with a show "filter is_Start (snd (Open h path selectFile))
            = [Start_call ''explorer''
                 [if selectFile \<and> \<not> IsDir pathInfo then ''/select,\"'' @ path @ ''\"''
                  else path]]"
    by (simp add: Open_calls [where strategy = windowsExplorerBinArgs])
qed

theorem windows_launch_spec_witness:
  "filter is_Start
     (snd (Open (sample_host ''windows'' [] None None) ''/home/user/doc.txt'' True))
     = [Start_call ''explorer'' [''/select,\"/home/user/doc.txt\"'']]
   \<and> filter is_Start
     (snd (Open (sample_host ''windows'' [] None None) ''/home/user/doc.txt'' False))
     = [Start_call ''explorer'' [''/home/user/doc.txt'']]"
  using windows_launch_spec [where h = "sample_host ''windows'' [] None None"
      and path = "''/home/user/doc.txt''" and pathInfo = "\<lparr> IsDir = False \<rparr>"
      and selectFile = True]
    windows_launch_spec [where h = "sample_host ''windows'' [] None None"
      and path = "''/home/user/doc.txt''" and pathInfo = "\<lparr> IsDir = False \<rparr>"
      and selectFile = False]
  by code_simp

text \<open>
  Claim C7. The macOS strategy resolves to the executable \<open>open\<close>; with selection its
  argument list is \<open>["-R", path]\<close>, without selection \<open>[path]\<close>; for the path
  \<open>/Users/a/file.txt\<close> with selection it is \<open>["-R", "/Users/a/file.txt"]\<close>. On
  \<open>darwin\<close> this is the command that \<open>Open\<close> hands to \<open>cmd.Start\<close>.
\<close>

theorem darwin_launch_spec:
  "darwinExplorerBinArgs path True = (Inr (''open'', [''-R'', path]), [])
   \<and> darwinExplorerBinArgs path False = (Inr (''open'', [path]), [])
   \<and> darwinExplorerBinArgs ''/Users/a/file.txt'' True
     = (Inr (''open'', [''-R'', ''/Users/a/file.txt'']), [])
   \<and> (GOOS h = ''darwin'' \<and> Stat h path = Inr pathInfo
        \<longrightarrow> filter is_Start (snd (Open h path selectFile))
            = [Start_call ''open''
                 (if selectFile \<and> \<not> IsDir pathInfo then [''-R'', path] else [path])])"
proof (intro conjI impI)
  show t: "darwinExplorerBinArgs path True = (Inr (''open'', [''-R'', path]), [])" for path
    by (simp add: darwinExplorerBinArgs_def)
  show f: "darwinExplorerBinArgs path False = (Inr (''open'', [path]), [])"
    by (simp add: darwinExplorerBinArgs_def)
  show "darwinExplorerBinArgs ''/Users/a/file.txt'' True
     = (Inr (''open'', [''-R'', ''/Users/a/file.txt'']), [])"
    by (rule t)
  assume a: "GOOS h = ''darwin'' \<and> Stat h path = Inr pathInfo"
  have "darwinExplorerBinArgs path (selectFile \<and> \<not> IsDir pathInfo)
          = (Inr (''open'',
                  (if selectFile \<and> \<not> IsDir pathInfo then [''-R'', path] else [path])), [])"
    using t f by (cases selectFile; cases "IsDir pathInfo") simp_all
  with a show "filter is_Start (snd (Open h path selectFile))
            = [Start_call ''open''
                 (if selectFile \<and> \<not> IsDir pathInfo then [''-R'', path] else [path])]"
    by (simp add: Open_calls [where strategy = darwinExplorerBinArgs])
qed

theorem darwin_launch_spec_witness:
  "filter is_Start
     (snd (Open (sample_host ''darwin'' [] None None) ''/home/user/doc.txt'' True))
     = [Start_call ''open'' [''-R'', ''/home/user/doc.txt'']]
   \<and> filter is_Start
     (snd (Open (sample_host ''darwin'' [] None None) ''/home/user/doc.txt'' False))
     = [Start_call ''open'' [''/home/user/doc.txt'']]"
  using darwin_launch_spec [where h = "sample_host ''darwin'' [] None None"
      and path = "''/home/user/doc.txt''" and pathInfo = "\<lparr> IsDir = False \<rparr>"
      and selectFile = True]
    darwin_launch_spec [where h = "sample_host ''darwin'' [] None None"
      and path = "''/home/user/doc.txt''" and pathInfo = "\<lparr> IsDir = False \<rparr>"
      and selectFile = False]
  by code_simp

subsection \<open>The Linux strategy\<close>

text \<open>
  With the identifier \<open>"  gnome  "\<close> and no selection, the path \<open>/home/user/\<close> resolves
  to \<open>nautilus\<close> with the argument \<open>/home/user\<close>, the directory that the path names and
  not its parent \<open>/home\<close>; the path \<open>/home/user/..\<close>, which names \<open>/home\<close>, resolves to
  the argument \<open>/home/user\<close>, a child of that directory. The first path is an existing
  directory of the host, and \<open>Open\<close> starts \<open>nautilus\<close> on \<open>/home/user\<close> for it.
\<close>

theorem linux_gnome_parent_counterexample:
  "fst (linuxExplorerBinArgs (sample_host ''linux'' ''  gnome  '' None None) ''/home/user/'' False)
     = Inr (''nautilus'', [''/home/user''])
   \<and> fst (linuxExplorerBinArgs (sample_host ''linux'' ''  gnome  '' None None)
            ''/home/user/..'' False)
     = Inr (''nautilus'', [''/home/user''])
   \<and> Stat (sample_host ''linux'' ''  gnome  '' None None) ''/home/user/'' = Inr \<lparr> IsDir = True \<rparr>
   \<and> filter is_Start
         (snd (Open (sample_host ''linux'' ''  gnome  '' None None) ''/home/user/'' False))
     = [Start_call ''nautilus'' [''/home/user'']]"
  by code_simp

text \<open>
  Claim C2, amended. The Linux strategy reads \<open>XDG_CURRENT_DESKTOP\<close>, trims it, puts it in
  upper case and resolves to the executable that the table gives for the normalised value
  (\<open>nemo\<close>, \<open>nautilus\<close>, \<open>dolphin\<close>, \<open>pcmanfm-qt\<close>, \<open>caja\<close>, \<open>thunar\<close>, and
  \<open>xdg-open\<close> for any other value). For the identifier \<open>"  gnome  "\<close> and no selection it
  resolves to \<open>nautilus\<close> with the single argument \<open>filepath.Dir(path)\<close>: for
  \<open>/home/user/doc.txt\<close> that is the parent directory \<open>/home/user\<close>, and for a path that
  ends with a separator it is \<open>filepath.Clean\<close> of the path.
\<close>

theorem linux_desktop_dispatch:
  "map_sum id fst (fst (linuxExplorerBinArgs h path selectFile))
     = Inr (spec_linux_executable
              (strings_ToUpper h (strings_TrimSpace h (Getenv h ''XDG_CURRENT_DESKTOP''))))
   \<and> snd (linuxExplorerBinArgs h path selectFile) = [Getenv_call ''XDG_CURRENT_DESKTOP'']
   \<and> (Getenv h ''XDG_CURRENT_DESKTOP'' = ''  gnome  ''
        \<longrightarrow> fst (linuxExplorerBinArgs h path False) = Inr (''nautilus'', [filepath_Dir path])
          \<and> fst (linuxExplorerBinArgs h ''/home/user/doc.txt'' False)
            = Inr (''nautilus'', [''/home/user''])
          \<and> fst (linuxExplorerBinArgs h (p @ ''/'') False)
            = Inr (''nautilus'', [filepath_Clean (p @ ''/'')]))"
proof -
  have "filepath_Dir (p @ ''/'') = filepath_Clean (p @ ''/'')"
    by (simp only: filepath_Dir_def dir_prefix_trailing)
  then show ?thesis
    by (simp add: linuxExplorerBinArgs_eq desktopEnvironment_def trim_upper_gnome
        spec_linux_executable_def Dir_doc)
qed

theorem linux_desktop_dispatch_witness:
  "linuxExplorerBinArgs (sample_host ''linux'' ''  gnome  '' None None) ''/home/user/doc.txt'' False
     = (Inr (''nautilus'', [''/home/user'']), [Getenv_call ''XDG_CURRENT_DESKTOP''])
   \<and> map_sum id fst (fst (linuxExplorerBinArgs
         (sample_host ''linux'' [CHR 0x09, CHR ''K'', CHR ''d'', CHR ''e'', CHR 0x0A] None None)
         ''/home/user/doc.txt'' True))
     = Inr ''dolphin''
   \<and> map_sum id fst (fst (linuxExplorerBinArgs
         (sample_host ''linux'' ''x-cinnamon'' None None) ''/home/user/doc.txt'' True))
     = Inr ''nemo''
   \<and> map_sum id fst (fst (linuxExplorerBinArgs
         (sample_host ''linux'' [] None None) ''/home/user/doc.txt'' True))
     = Inr ''xdg-open''"
  using linux_desktop_dispatch [where h = "sample_host ''linux'' ''  gnome  '' None None"
      and path = "''/home/user/doc.txt''" and selectFile = False and p = "''/home/user''"]
    linux_desktop_dispatch [where h = "sample_host ''linux''
        [CHR 0x09, CHR ''K'', CHR ''d'', CHR ''e'', CHR 0x0A] None None"
      and path = "''/home/user/doc.txt''" and selectFile = True and p = "''/home/user''"]
    linux_desktop_dispatch [where h = "sample_host ''linux'' ''x-cinnamon'' None None"
      and path = "''/home/user/doc.txt''" and selectFile = True and p = "''/home/user''"]
    linux_desktop_dispatch [where h = "sample_host ''linux'' [] None None"
      and path = "''/home/user/doc.txt''" and selectFile = True and p = "''/home/user''"]
  by code_simp

text \<open>
  Claim C3. Each of the six named strategies passes one argument: \<open>filepath.Dir(path)\<close>
  when selection is not requested, the path itself when it is. The fallback strategy
  passes \<open>filepath.Dir(path)\<close> whatever the selection request; with an identifier that the
  table does not name, selection requested and the path \<open>/home/user/doc.txt\<close>, the Linux
  strategy resolves to \<open>xdg-open\<close> with the argument \<open>/home/user\<close>.
\<close>

theorem linux_strategy_arguments:
  "fst (linuxCinnamonExplorerBinArgs path selectFile)
     = Inr (''nemo'', [if selectFile then path else filepath_Dir path])
   \<and> fst (linuxGnomeExplorerBinArgs path selectFile)
     = Inr (''nautilus'', [if selectFile then path else filepath_Dir path])
   \<and> fst (linuxKdeExplorerBinArgs path selectFile)
     = Inr (''dolphin'', [if selectFile then path else filepath_Dir path])
   \<and> fst (linuxLxqtExplorerBinArgs path selectFile)
     = Inr (''pcmanfm-qt'', [if selectFile then path else filepath_Dir path])
   \<and> fst (linuxMateExplorerBinArgs path selectFile)
     = Inr (''caja'', [if selectFile then path else filepath_Dir path])
   \<and> fst (linuxXfceExplorerBinArgs path selectFile)
     = Inr (''thunar'', [if selectFile then path else filepath_Dir path])
   \<and> fst (linuxFallbackExplorerBinArgs path selectFile) = Inr (''xdg-open'', [filepath_Dir path])
   \<and> (desktopEnvironment h \<in> set named_desktops
        \<longrightarrow> fst (linuxExplorerBinArgs h path selectFile)
            = Inr (spec_linux_executable (desktopEnvironment h),
                   [if selectFile then path else filepath_Dir path]))
   \<and> (desktopEnvironment h \<notin> set named_desktops
        \<longrightarrow> fst (linuxExplorerBinArgs h path selectFile) = Inr (''xdg-open'', [filepath_Dir path])
          \<and> fst (linuxExplorerBinArgs h ''/home/user/doc.txt'' True)
            = Inr (''xdg-open'', [''/home/user'']))"
  by (simp add: linux_strategy_defs linuxExplorerBinArgs_eq Dir_doc)
    (simp add: named_desktops_def spec_linux_executable_def)

theorem linux_strategy_arguments_witness:
  "fst (linuxExplorerBinArgs (sample_host ''linux'' ''sway'' None None) ''/home/user/doc.txt'' True)
     = Inr (''xdg-open'', [''/home/user''])
   \<and> fst (linuxExplorerBinArgs (sample_host ''linux'' ''xfce'' None None)
            ''/home/user/doc.txt'' True)
     = Inr (''thunar'', [''/home/user/doc.txt''])
   \<and> fst (linuxExplorerBinArgs (sample_host ''linux'' ''xfce'' None None)
            ''/home/user/doc.txt'' False)
     = Inr (''thunar'', [''/home/user''])"
  using linux_strategy_arguments [where h = "sample_host ''linux'' ''sway'' None None"
      and path = "''/home/user/doc.txt''" and selectFile = True]
    linux_strategy_arguments [where h = "sample_host ''linux'' ''xfce'' None None"
      and path = "''/home/user/doc.txt''" and selectFile = True]
    linux_strategy_arguments [where h = "sample_host ''linux'' ''xfce'' None None"
      and path = "''/home/user/doc.txt''" and selectFile = False]
  by code_simp

subsection \<open>Platforms without a strategy\<close>

text \<open>
  On a host whose \<open>GOOS\<close> is \<open>plan9\<close>, \<open>Open\<close> on a path that does not exist returns the
  path-access error, not \<open>unsupported platform\<close>: \<open>os.Stat\<close> comes before the switch on
  \<open>runtime.GOOS\<close>.
\<close>

theorem unsupported_platform_counterexample:
  "GOOS (sample_host ''plan9'' [] None None) = ''plan9''
   \<and> Open (sample_host ''plan9'' [] None None) ''/home/user/missing.txt'' False
     = (Inl (fmt_Errorf ''failed to access the specified path stat''
               (HostError ''no such file or directory'')),
        [Stat_call ''/home/user/missing.txt''])
   \<and> fst (Open (sample_host ''plan9'' [] None None) ''/home/user/missing.txt'' False)
     \<noteq> Inl (errors_New ''unsupported platform'')"
  by code_simp

text \<open>
  Claim C8, amended. When \<open>GOOS\<close> is none of \<open>windows\<close>, \<open>darwin\<close>, \<open>linux\<close>: on a path
  that \<open>os.Stat\<close> accepts \<open>Open\<close> returns the error \<open>unsupported platform\<close>; on a path
  that \<open>os.Stat\<close> rejects it returns the path-access error; in both cases the only call
  made is \<open>os.Stat\<close>, so no process is started.
\<close>

theorem Open_unsupported_platform:
  assumes "GOOS h \<noteq> ''windows''" and "GOOS h \<noteq> ''darwin''" and "GOOS h \<noteq> ''linux''"
  shows "(Stat h path = Inr pathInfo
            \<longrightarrow> Open h path selectFile
                = (Inl (errors_New ''unsupported platform''), [Stat_call path]))
         \<and> (Stat h path = Inl err
            \<longrightarrow> Open h path selectFile
                = (Inl (fmt_Errorf ''failed to access the specified path stat'' err),
                   [Stat_call path]))
         \<and> filter is_Start (snd (Open h path selectFile)) = []"
  using assms by (cases "Stat h path") (simp_all add: Open_def)

theorem Open_unsupported_platform_witness:
  "Open (sample_host ''plan9'' [] None None) ''/home/user/doc.txt'' True
     = (Inl (errors_New ''unsupported platform''), [Stat_call ''/home/user/doc.txt''])
   \<and> filter is_Start (snd (Open (sample_host ''plan9'' [] None None) ''/home/user/doc.txt'' True))
     = []"
  using Open_unsupported_platform [where h = "sample_host ''plan9'' [] None None"
      and path = "''/home/user/doc.txt''" and pathInfo = "\<lparr> IsDir = False \<rparr>"
      and selectFile = True]
  by code_simp

subsection \<open>Strategy resolution cannot fail\<close>

text \<open>
  Claim C9. Every strategy function (Windows, macOS, the Linux dispatcher for any value
  of the environment variable, the six named Linux strategies and the fallback) returns
  a \<open>nil\<close> error for every path and selection flag, and \<open>Open\<close> never returns the error
  \<open>failed to determine the file explorer binary\<close>.
\<close>

theorem strategies_never_fail:
  "\<not> isl (fst (windowsExplorerBinArgs path selectFile))
   \<and> \<not> isl (fst (darwinExplorerBinArgs path selectFile))
   \<and> \<not> isl (fst (linuxExplorerBinArgs h path selectFile))
   \<and> \<not> isl (fst (linuxCinnamonExplorerBinArgs path selectFile))
   \<and> \<not> isl (fst (linuxGnomeExplorerBinArgs path selectFile))
   \<and> \<not> isl (fst (linuxKdeExplorerBinArgs path selectFile))
   \<and> \<not> isl (fst (linuxLxqtExplorerBinArgs path selectFile))
   \<and> \<not> isl (fst (linuxMateExplorerBinArgs path selectFile))
   \<and> \<not> isl (fst (linuxXfceExplorerBinArgs path selectFile))
   \<and> \<not> isl (fst (linuxFallbackExplorerBinArgs path selectFile))
   \<and> fst (Open h path selectFile)
       \<noteq> Inl (fmt_Errorf ''failed to determine the file explorer binary'' err)"
proof -
  have "fst (Open h path selectFile)
       \<noteq> Inl (fmt_Errorf ''failed to determine the file explorer binary'' err)"
  proof (cases "Stat h path")
    case (Inl e)
    then show ?thesis by (simp add: Open_def)
  next
    case (Inr pathInfo)
    show ?thesis
    proof (cases "GOOS h = ''windows'' \<or> GOOS h = ''darwin'' \<or> GOOS h = ''linux''")
      case False
      with Inr show ?thesis by (simp add: Open_def)
    next
      case True
      define strategy where "strategy = (if GOOS h = ''windows'' then windowsExplorerBinArgs
                     else if GOOS h = ''darwin'' then darwinExplorerBinArgs
                     else linuxExplorerBinArgs h)"
      have s: "\<not> isl (fst (strategy path (selectFile \<and> \<not> IsDir pathInfo)))"
        by (simp add: strategy_def strategy_calls)
      obtain result calls where
        p: "strategy path (selectFile \<and> \<not> IsDir pathInfo) = (result, calls)"
        by (cases "strategy path (selectFile \<and> \<not> IsDir pathInfo)")
      with s obtain spec where "result = Inr spec" by (cases result) simp_all
      moreover obtain bin args where "spec = (bin, args)" by (cases spec)
      ultimately have
        r: "strategy path (selectFile \<and> \<not> IsDir pathInfo) = (Inr (bin, args), calls)"
        using p by simp
      show ?thesis
        by (simp add: Open_started [OF Inr strategy_def True r] split: option.splits)
    qed
  qed
  then show ?thesis
    by (simp add: strategy_calls linux_strategy_defs)
qed

subsection \<open>Directories on Linux\<close>

text \<open>
  On a Linux host the directory \<open>/\<close> is opened with the argument \<open>/\<close>, the directory
  itself, under a named desktop environment and under the fallback; the directory
  \<open>/home/user/\<close>, written with a trailing separator, is opened with \<open>/home/user\<close>.
\<close>

theorem linux_directory_counterexample:
  "Stat (sample_host ''linux'' ''GNOME'' None None) ''/'' = Inr \<lparr> IsDir = True \<rparr>
   \<and> filter is_Start (snd (Open (sample_host ''linux'' ''GNOME'' None None) ''/'' True))
     = [Start_call ''nautilus'' [''/'']]
   \<and> filter is_Start (snd (Open (sample_host ''linux'' [] None None) ''/'' False))
     = [Start_call ''xdg-open'' [''/'']]
   \<and> Stat (sample_host ''linux'' ''GNOME'' None None) ''/home/user/'' = Inr \<lparr> IsDir = True \<rparr>
   \<and> filter is_Start (snd (Open (sample_host ''linux'' ''GNOME'' None None) ''/home/user/'' True))
     = [Start_call ''nautilus'' [''/home/user'']]"
  by code_simp

text \<open>
  Claim C10, amended. On \<open>linux\<close>, for a path that is an existing directory and for
  either value of \<open>selectFile\<close>, the process started has the single argument
  \<open>filepath.Dir(path)\<close>. For the path \<open>/\<close> that is \<open>/\<close>, and for a path that ends with a
  separator it is \<open>filepath.Clean\<close> of the path, the directory itself.
\<close>

theorem Open_linux_directory:
  assumes "GOOS h = ''linux''" and "Stat h path = Inr pathInfo" and "IsDir pathInfo"
  shows "filter is_Start (snd (Open h path selectFile))
           = [Start_call (spec_linux_executable (desktopEnvironment h)) [filepath_Dir path]]
         \<and> filepath_Dir ''/'' = ''/''
         \<and> filepath_Dir (p @ ''/'') = filepath_Clean (p @ ''/'')"
proof -
  have "linuxExplorerBinArgs h path (selectFile \<and> \<not> IsDir pathInfo)
          = (Inr (spec_linux_executable (desktopEnvironment h), [filepath_Dir path]),
             [Getenv_call ''XDG_CURRENT_DESKTOP''])"
    using assms(3) by (simp add: linuxExplorerBinArgs_eq)
  with assms(1,2) have "filter is_Start (snd (Open h path selectFile))
           = [Start_call (spec_linux_executable (desktopEnvironment h)) [filepath_Dir path]]"
    by (simp add: Open_calls [where strategy = "linuxExplorerBinArgs h"])
  moreover have "filepath_Dir ''/'' = ''/''" by code_simp
  moreover have "filepath_Dir (p @ ''/'') = filepath_Clean (p @ ''/'')"
    by (simp only: filepath_Dir_def dir_prefix_trailing)
  ultimately show ?thesis by simp
qed

theorem Open_linux_directory_witness:
  "filter is_Start (snd (Open (sample_host ''linux'' ''GNOME'' None None) ''/home/user'' True))
     = [Start_call ''nautilus'' [''/home'']]
   \<and> filter is_Start (snd (Open (sample_host ''linux'' [] None None) ''/home/user'' False))
     = [Start_call ''xdg-open'' [''/home'']]"
  using Open_linux_directory [where h = "sample_host ''linux'' ''GNOME'' None None"
      and path = "''/home/user''" and pathInfo = "\<lparr> IsDir = True \<rparr>" and selectFile = True]
    Open_linux_directory [where h = "sample_host ''linux'' [] None None"
      and path = "''/home/user''" and pathInfo = "\<lparr> IsDir = True \<rparr>" and selectFile = False]
  by code_simp

end
